theory Spec2Isabelle
  imports Complex_Main "HOL-Library.Sublist"
begin

section \<open>Strings\<close>

text \<open>
  A JavaScript string is modelled as a \<open>string\<close> whose characters stand for the code units
  \<open>0 .. 255\<close>. \<open>String.prototype.trim\<close> removes white space and line terminators from
  both ends; in that range these are TAB, LF, VT, FF, CR, SPACE and NBSP.
\<close>

definition isWhiteSpace :: "char \<Rightarrow> bool" where
  "isWhiteSpace c \<longleftrightarrow>
     c = CHR 0x09 \<or> c = CHR 0x0A \<or> c = CHR 0x0B \<or> c = CHR 0x0C \<or> c = CHR 0x0D
     \<or> c = CHR 0x20 \<or> c = CHR 0xA0"

definition trim :: "string \<Rightarrow> string" where
  "trim s = rev (dropWhile isWhiteSpace (rev (dropWhile isWhiteSpace s)))"

text \<open>\<open>s.split(sep)\<close> for a one-character separator: never empty, \<open>''.split(sep) = ['']\<close>.\<close>

fun split :: "char \<Rightarrow> string \<Rightarrow> string list" where
  "split sep [] = [[]]"
| "split sep (c # cs) =
     (if c = sep then [] # split sep cs
      else (case split sep cs of [] \<Rightarrow> [[c]] | f # fs \<Rightarrow> (c # f) # fs))"

text \<open>\<open>s.endsWith(suf)\<close>: the last \<open>suf.length\<close> code units of \<open>s\<close> are \<open>suf\<close>.\<close>

definition endsWith :: "string \<Rightarrow> string \<Rightarrow> bool" where
  "endsWith s suf \<longleftrightarrow> length suf \<le> length s \<and> drop (length s - length suf) s = suf"

text \<open>
  \<open>s.replace(/^"|"$/g, '')\<close>: the scan removes a quote at index 0, goes on behind it, and
  removes a quote that is the last character of the string.
\<close>

definition stripQuotes :: "string \<Rightarrow> string" where
  "stripQuotes s =
     (let s1 = (case s of [] \<Rightarrow> [] | c # cs \<Rightarrow> if c = CHR 0x22 then cs else s)
      in if s1 \<noteq> [] \<and> last s1 = CHR 0x22 then butlast s1 else s1)"

section \<open>Data model (types.ts)\<close>

datatype SentimentType = Positive | Negative | Neutral

datatype ProviderType = flash | pro | compare

record SentimentAnalysis =
  provider :: string
  sentiment :: SentimentType
  confidence :: real
  keywords_a :: "string list"
  explanation :: string

record SentimentResult =
  id_r :: string
  text_r :: string
  timestamp :: string
  analyses :: "SentimentAnalysis list"

record Suggestion =
  improvedText :: string
  wordChanges :: "(string \<times> string) list"
  reasoning :: string

section \<open>The provider boundary (geminiService.ts)\<close>

text \<open>
  An element of the array that \<open>JSON.parse\<close> returns. The provider is asked for \<open>text\<close> and
  \<open>analyses\<close>; nothing stops it from sending \<open>id\<close> or \<open>timestamp\<close> fields as well.
\<close>

record RawResult =
  raw_id :: "string option"
  raw_text :: string
  raw_timestamp :: "string option"
  raw_analyses :: "SentimentAnalysis list"

text \<open>
  What lies outside the repository is a parameter: \<open>JSON.parse\<close> (\<open>None\<close> when it throws, or
  when the value it returns has no \<open>map\<close>), and the \<open>k\<close>-th value returned, since the page was
  loaded, by \<open>crypto.randomUUID()\<close> and by \<open>new Date().toISOString()\<close>. Of a suggestion
  reply \<open>JSON.parse\<close> yields \<open>None\<close> when it throws, \<open>Some None\<close> for the JSON value \<open>null\<close>,
  which \<open>getImprovementSuggestions\<close> returns like any other, and the object otherwise.
\<close>

record Env =
  JSON_parse :: "string \<Rightarrow> RawResult list option"
  JSON_parse_suggestion :: "string \<Rightarrow> Suggestion option option"
  randomUUID :: "nat \<Rightarrow> string"
  toISOString :: "nat \<Rightarrow> string"

text \<open>How \<open>await ai.models.generateContent(...)\<close> ends: it throws, or yields \<open>response.text\<close>.\<close>

datatype Response = Rejected | Replied "string option"

datatype Failure = ProviderThrew | EmptyResponse | Unparsable

text \<open>
  \<open>results.map(r => ({...r, id: crypto.randomUUID(), timestamp: new Date().toISOString()}))\<close>:
  the two fields written after the spread replace whatever \<open>r\<close> carried under those names.
\<close>

fun assignIds :: "Env \<Rightarrow> nat \<Rightarrow> RawResult list \<Rightarrow> SentimentResult list" where
  "assignIds env k [] = []"
| "assignIds env k (r # rs) =
     \<lparr>id_r = randomUUID env k, text_r = raw_text r, timestamp = toISOString env k,
      analyses = raw_analyses r\<rparr> # assignIds env (Suc k) rs"

text \<open>The part of \<open>analyzeSentiment\<close> behind the \<open>await\<close>; \<open>k\<close> counts the identifiers drawn so far.\<close>

definition analyzeSentiment :: "Env \<Rightarrow> nat \<Rightarrow> Response \<Rightarrow> Failure + SentimentResult list" where
  "analyzeSentiment env k resp =
     (case resp of
        Rejected \<Rightarrow> Inl ProviderThrew
      | Replied None \<Rightarrow> Inl EmptyResponse
      | Replied (Some t) \<Rightarrow>
          (let jsonStr = trim t in
           if jsonStr = [] then Inl EmptyResponse
           else (case JSON_parse env jsonStr of
                   None \<Rightarrow> Inl Unparsable
                 | Some rs \<Rightarrow> Inr (assignIds env k rs))))"

definition getImprovementSuggestions :: "Env \<Rightarrow> Response \<Rightarrow> Failure + Suggestion option" where
  "getImprovementSuggestions env resp =
     (case resp of
        Rejected \<Rightarrow> Inl ProviderThrew
      | Replied None \<Rightarrow> Inl EmptyResponse
      | Replied (Some t) \<Rightarrow>
          (let jsonStr = trim t in
           if jsonStr = [] then Inl EmptyResponse
           else (case JSON_parse_suggestion env jsonStr of
                   None \<Rightarrow> Inl Unparsable
                 | Some d \<Rightarrow> Inr d)))"

section \<open>The component state (App)\<close>

datatype Tab = dashboard | history_tab | insights

text \<open>
  The \<open>useState\<close> cells of \<open>App\<close> and of \<open>useDebounce\<close>, the \<open>useRef\<close> cell, and three
  observations of the world around them: whether the debounce timeout is pending, the calls
  made to the two providers, and the number of identifiers drawn.
\<close>

record App =
  activeTab :: Tab
  inputText :: string
  selectedProvider :: ProviderType
  isLoading :: bool
  results :: "SentimentResult list"
  history :: "SentimentResult list"
  error :: "string option"
  isSidebarOpen :: bool
  showGuide :: bool
  improvingText :: "(string \<times> string) option"
  isImproving :: bool
  suggestion :: "Suggestion option"
  debouncedValue :: string
  lastAnalyzedText :: string
  timerPending :: bool
  analysisCalls :: "(string list \<times> ProviderType) list"
  improveCalls :: "string list"
  uuidCalls :: nat

text \<open>
  The state after the first render and its effects: \<open>useDebounce\<close> has armed its first
  timeout, and the auto-analysis effect has run on the empty string and done nothing.
\<close>

definition initialApp :: App where
  "initialApp =
     \<lparr>activeTab = dashboard, inputText = [], selectedProvider = compare, isLoading = False,
      results = [], history = [], error = None, isSidebarOpen = False, showGuide = True,
      improvingText = None, isImproving = False, suggestion = None, debouncedValue = [],
      lastAnalyzedText = [], timerPending = True, analysisCalls = [], improveCalls = [],
      uuidCalls = 0\<rparr>"

subsection \<open>handleAnalysis\<close>

text \<open>
  Up to the \<open>await\<close>: the guard, the two setters, and the call to the provider. The
  function reads \<open>selectedProvider\<close> from the render that created it; \<open>p\<close> is that value.
\<close>

definition handleAnalysis :: "ProviderType \<Rightarrow> string list \<Rightarrow> App \<Rightarrow> App" where
  "handleAnalysis p texts s =
     (if texts = [] \<or> list_all (\<lambda>t. trim t = []) texts then s
      else s\<lparr>isLoading := True, error := None,
             analysisCalls := analysisCalls s @ [(texts, p)]\<rparr>)"

text \<open>Behind the \<open>await\<close>: the \<open>try\<close> body, or the \<open>catch\<close>, and then the \<open>finally\<close>.\<close>

definition handleAnalysis_settled :: "Env \<Rightarrow> Response \<Rightarrow> App \<Rightarrow> App" where
  "handleAnalysis_settled env resp s =
     (case analyzeSentiment env (uuidCalls s) resp of
        Inr newResults \<Rightarrow>
          s\<lparr>results := newResults, history := newResults @ history s, showGuide := False,
            isLoading := False, uuidCalls := uuidCalls s + length newResults\<rparr>
      | Inl e \<Rightarrow>
          s\<lparr>error := Some ''Analysis failed. Verify your connection or API key.'',
            isLoading := False\<rparr>)"

subsection \<open>manualAnalyze\<close>

definition manualAnalyze :: "App \<Rightarrow> App" where
  "manualAnalyze s =
     (if trim (inputText s) = [] then s\<lparr>error := Some ''Please enter some text to analyze.''\<rparr>
      else handleAnalysis (selectedProvider s) [inputText s]
             (s\<lparr>lastAnalyzedText := inputText s\<rparr>))"

subsection \<open>useDebounce and the auto-analysis effect\<close>

text \<open>The body of the effect whose dependency list is \<open>[debouncedInput]\<close>.\<close>

definition autoAnalysisEffect :: "App \<Rightarrow> App" where
  "autoAnalysisEffect s =
     (let debouncedInput = debouncedValue s in
      if 20 < length (trim debouncedInput) \<and> debouncedInput \<noteq> lastAnalyzedText s
      then handleAnalysis (selectedProvider s) [debouncedInput]
             (s\<lparr>lastAnalyzedText := debouncedInput\<rparr>)
      else s)"

text \<open>
  \<open>setInputText(v)\<close>. A value equal to the stored one changes nothing. A new value is rendered,
  and the effect of \<open>useDebounce\<close> (dependencies \<open>[value, delay]\<close>) runs again: its cleanup
  clears the pending timeout and its body arms a new one for \<open>v\<close>.
\<close>

definition setInputText :: "string \<Rightarrow> App \<Rightarrow> App" where
  "setInputText v s = (if v = inputText s then s else s\<lparr>inputText := v, timerPending := True\<rparr>)"

text \<open>
  The pending timeout fires: \<open>setDebouncedValue(value)\<close>, where \<open>value\<close> is the input text the
  timeout was armed for, which is the current one. When this changes \<open>debouncedInput\<close>, the
  auto-analysis effect runs; when it does not, there is no render and no effect.
\<close>

definition debounceTimeout :: "App \<Rightarrow> App" where
  "debounceTimeout s =
     (if \<not> timerPending s then s
      else let s1 = s\<lparr>timerPending := False, debouncedValue := inputText s\<rparr>
           in if inputText s \<noteq> debouncedValue s then autoAnalysisEffect s1 else s1)"

definition examples :: "string list" where
  "examples =
     [''The product quality is absolutely disappointing, and the delivery was late twice.'',
      ''I am incredibly happy with the new update! Everything works smoothly and fast.'',
      ''The service was okay, nothing special but it got the job done eventually.'',
      ''I really hate the new interface, it's confusing and cluttered.'']"

text \<open>\<open>r\<close> is \<open>Math.floor(Math.random() * examples.length)\<close>, which lies below \<open>examples.length\<close>.\<close>

definition insertExample :: "nat \<Rightarrow> App \<Rightarrow> App" where
  "insertExample r s = setInputText (examples ! (r mod length examples)) s"

subsection \<open>handleImproveRequest\<close>

definition handleImproveRequest :: "string \<Rightarrow> string \<Rightarrow> App \<Rightarrow> App" where
  "handleImproveRequest i t s =
     s\<lparr>improvingText := Some (i, t), isImproving := True, suggestion := None,
       improveCalls := improveCalls s @ [t]\<rparr>"

definition handleImproveRequest_settled :: "Env \<Rightarrow> Response \<Rightarrow> App \<Rightarrow> App" where
  "handleImproveRequest_settled env resp s =
     (case getImprovementSuggestions env resp of
        Inr d \<Rightarrow> s\<lparr>suggestion := d, isImproving := False\<rparr>
      | Inl e \<Rightarrow> s\<lparr>error := Some ''Failed to generate suggestions.'', isImproving := False\<rparr>)"

text \<open>The backdrop, the close button and the Done button of the modal: \<open>setImprovingText(null)\<close>.\<close>

definition dismissSuggestion :: "App \<Rightarrow> App" where
  "dismissSuggestion s = s\<lparr>improvingText := None\<rparr>"

subsection \<open>onFileUpload\<close>

record UploadedFile =
  file_name :: string
  file_content :: string

text \<open>The handler itself: without a file it returns, with one it starts the reader.\<close>

definition onFileUpload :: "UploadedFile option \<Rightarrow> App \<Rightarrow> App" where
  "onFileUpload file s = (case file of None \<Rightarrow> s | Some f \<Rightarrow> s\<lparr>isLoading := True\<rparr>)"

definition extractLines :: "UploadedFile \<Rightarrow> string list" where
  "extractLines f =
     (if endsWith (file_name f) ''.csv''
      then filter (\<lambda>l. 5 < length l)
             (map (\<lambda>l. trim (stripQuotes (hd (split (CHR '','') l))))
                (split (CHR 0x0A) (file_content f)))
      else filter (\<lambda>l. 5 < length l) (map trim (split (CHR 0x0A) (file_content f))))"

text \<open>
  \<open>reader.onload\<close>. It calls the \<open>handleAnalysis\<close> of the render in which the file was
  chosen, where \<open>selectedProvider\<close> was \<open>p\<close>.
\<close>

definition reader_onload :: "ProviderType \<Rightarrow> UploadedFile \<Rightarrow> App \<Rightarrow> App" where
  "reader_onload p f s =
     (let lines = extractLines f in
      if 0 < length lines then handleAnalysis p (take 10 lines) s else s)"

section \<open>Derived views\<close>

text \<open>
  \<open>confidence\<close> is a JavaScript number; it is modelled as an exact real, and \<open>NaN\<close> (the
  mean of no numbers, \<open>0 / 0\<close>) as \<open>None\<close>. \<open>Math.round\<close> rounds half up. The code computes in
  IEEE doubles: where a sum, quotient or product is not exact in binary, its rounded
  percentage can be one below or above the exact one (the mean of 0.04 and 0.25 times 100
  is 14.499999999999998 in doubles and 14.5 exactly). The statements below use these
  functions only at values where the double arithmetic is exact.
\<close>

definition Math_round :: "real \<Rightarrow> int" where
  "Math_round x = \<lfloor>x + 1 / 2\<rfloor>"

text \<open>The decimal digits of a number, as a template literal prints them.\<close>

fun showNat :: "nat \<Rightarrow> string" where
  "showNat n =
     (if n < 10 then [''0123456789'' ! n]
      else showNat (n div 10) @ [''0123456789'' ! (n mod 10)])"

declare showNat.simps [simp del]

record TimePoint =
  tp_name :: string
  tp_confidence :: "int option"
  pos :: nat
  neg :: nat
  neu :: nat

definition avgConf :: "SentimentResult \<Rightarrow> real option" where
  "avgConf h =
     (if analyses h = [] then None
      else Some (foldl (\<lambda>acc curr. acc + confidence curr) 0 (analyses h)
                 / of_nat (length (analyses h))))"

definition timePoint :: "SentimentResult \<Rightarrow> nat \<Rightarrow> TimePoint" where
  "timePoint h i =
     \<lparr>tp_name = ''T-'' @ showNat (15 - i),
      tp_confidence = map_option (\<lambda>a. Math_round (a * 100)) (avgConf h),
      pos = length (filter (\<lambda>a. sentiment a = Positive) (analyses h)),
      neg = length (filter (\<lambda>a. sentiment a = Negative) (analyses h)),
      neu = length (filter (\<lambda>a. sentiment a = Neutral) (analyses h))\<rparr>"

text \<open>\<open>xs.slice(-15)\<close>: the last 15 elements, or all of them when there are fewer.\<close>

definition slice_last15 :: "'a list \<Rightarrow> 'a list" where
  "slice_last15 xs = drop (length xs - 15) xs"

definition timeSeriesData :: "SentimentResult list \<Rightarrow> TimePoint list" where
  "timeSeriesData hist =
     (let window = slice_last15 (rev hist)
      in map (\<lambda>(h, i). timePoint h i) (zip window [0 ..< length window]))"

text \<open>\<open>r.analyses[0]?.sentiment\<close>: \<open>undefined\<close> (here \<open>None\<close>) when there is no first analysis.\<close>

definition firstSentiment :: "SentimentResult \<Rightarrow> SentimentType option" where
  "firstSentiment r = (case analyses r of [] \<Rightarrow> None | a # _ \<Rightarrow> Some (sentiment a))"

definition radialPosCount :: "SentimentResult list \<Rightarrow> nat" where
  "radialPosCount data = length (filter (\<lambda>r. firstSentiment r = Some Positive) data)"

definition radialTotal :: "SentimentResult list \<Rightarrow> nat" where
  "radialTotal data = (if length data = 0 then 1 else length data)"

definition radialData :: "App \<Rightarrow> int" where
  "radialData s =
     (let data = (if 0 < length (results s) then results s else history s)
      in Math_round (of_nat (radialPosCount data) / of_nat (radialTotal data) * 100))"

text \<open>
  The \<open>default\<close> branch of the \<open>switch\<close> has no counterpart: \<open>SentimentType\<close> has three values.
\<close>

definition moodColors :: "App \<Rightarrow> string" where
  "moodColors s =
     (let data = (if 0 < length (results s) then results s else take 1 (history s)) in
      case data of
        [] \<Rightarrow> ''linear-gradient(135deg, #fdfcfb 0%, #e2d1c3 100%)''
      | d # _ \<Rightarrow>
          (let primarySentiment = (case firstSentiment d of None \<Rightarrow> Neutral | Some v \<Rightarrow> v) in
           case primarySentiment of
             Positive \<Rightarrow> ''radial-gradient(circle at top right, #f0fdf4 0%, #dcfce7 35%, #fdfcfb 100%)''
           | Negative \<Rightarrow> ''radial-gradient(circle at top right, #fff1f2 0%, #ffe4e6 35%, #fdfcfb 100%)''
           | Neutral \<Rightarrow> ''radial-gradient(circle at top right, #f5f3ff 0%, #ede9fe 35%, #fdfcfb 100%)''))"

section \<open>Events\<close>

text \<open>
  Everything that can happen to the component: the handlers wired in the markup, the debounce
  timeout, the file reader, and the two providers settling.
\<close>

datatype Event =
    ChangeInput string
  | ClickTryExample nat
  | DebounceTimeout
  | ClickAnalyze
  | AnalysisSettled Response
  | ClickReframe string string
  | ImprovementSettled Response
  | DismissSuggestion
  | ChooseFile "UploadedFile option"
  | FileLoaded ProviderType UploadedFile
  | ClickClearArchives
  | ClickHelpCenter
  | ClickHelpCircle
  | CloseGuide
  | DismissError
  | SelectProvider ProviderType
  | ClickNav Tab
  | ToggleSidebar
  | CloseSidebar
  | ClickAnalyzeSomething

text \<open>
  The Analyze button is disabled while \<open>isLoading || !inputText.trim()\<close>, the Clear Archives
  button while the history is empty.
\<close>

fun step :: "Env \<Rightarrow> Event \<Rightarrow> App \<Rightarrow> App" where
  "step env (ChangeInput v) s = setInputText v s"
| "step env (ClickTryExample r) s = insertExample r s"
| "step env DebounceTimeout s = debounceTimeout s"
| "step env ClickAnalyze s =
     (if isLoading s \<or> trim (inputText s) = [] then s else manualAnalyze s)"
| "step env (AnalysisSettled resp) s = handleAnalysis_settled env resp s"
| "step env (ClickReframe i t) s = handleImproveRequest i t s"
| "step env (ImprovementSettled resp) s = handleImproveRequest_settled env resp s"
| "step env DismissSuggestion s = dismissSuggestion s"
| "step env (ChooseFile file) s = onFileUpload file s"
| "step env (FileLoaded p f) s = reader_onload p f s"
| "step env ClickClearArchives s = (if length (history s) = 0 then s else s\<lparr>history := []\<rparr>)"
| "step env ClickHelpCenter s = s\<lparr>showGuide := \<not> showGuide s\<rparr>"
| "step env ClickHelpCircle s = s\<lparr>showGuide := True\<rparr>"
| "step env CloseGuide s = s\<lparr>showGuide := False\<rparr>"
| "step env DismissError s = s\<lparr>error := None\<rparr>"
| "step env (SelectProvider p) s = s\<lparr>selectedProvider := p\<rparr>"
| "step env (ClickNav t) s = s\<lparr>activeTab := t, isSidebarOpen := False\<rparr>"
| "step env ToggleSidebar s = s\<lparr>isSidebarOpen := \<not> isSidebarOpen s\<rparr>"
| "step env CloseSidebar s = s\<lparr>isSidebarOpen := False\<rparr>"
| "step env ClickAnalyzeSomething s = s\<lparr>activeTab := dashboard\<rparr>"

fun run :: "Env \<Rightarrow> Event list \<Rightarrow> App \<Rightarrow> App" where
  "run env [] s = s"
| "run env (e # es) s = run env es (step env e s)"

section \<open>Identity of stored results\<close>



section \<open>Bulk upload, as the specification words it\<close>

text \<open>
  The specification's account of the extraction, written without the functions of the code
  above. The lines of a file are the pieces between its line feeds.
\<close>

fun spec_lines_from :: "string \<Rightarrow> string \<Rightarrow> string list" where
  "spec_lines_from cur [] = [rev cur]"
| "spec_lines_from cur (c # cs) =
     (if c = CHR 0x0A then rev cur # spec_lines_from [] cs else spec_lines_from (c # cur) cs)"

definition spec_lines :: "string \<Rightarrow> string list" where
  "spec_lines s = spec_lines_from [] s"

text \<open>The first delimited field of a line: what precedes its first comma.\<close>

definition spec_firstField :: "string \<Rightarrow> string" where
  "spec_firstField l = takeWhile (\<lambda>c. c \<noteq> CHR '','') l"

text \<open>A single pair of surrounding quote characters: one at each end, or nothing is stripped.\<close>

definition spec_stripPair :: "string \<Rightarrow> string" where
  "spec_stripPair s =
     (if 2 \<le> length s \<and> hd s = CHR 0x22 \<and> last s = CHR 0x22 then butlast (tl s) else s)"

text \<open>Trimming: the white space at the start goes, and the white space at the end.\<close>

fun spec_dropTrailing :: "string \<Rightarrow> string" where
  "spec_dropTrailing [] = []"
| "spec_dropTrailing (c # cs) =
     (if spec_dropTrailing cs = [] \<and> isWhiteSpace c then [] else c # spec_dropTrailing cs)"

definition spec_trim :: "string \<Rightarrow> string" where
  "spec_trim s = spec_dropTrailing (dropWhile isWhiteSpace s)"

text \<open>
  In a file whose name ends in \<open>.csv\<close> a line stands for its first field, the pair of quotes
  stripped, trimmed; in any other file for itself, trimmed. Lines of length at most 5 are
  discarded.
\<close>

definition spec_lineText :: "UploadedFile \<Rightarrow> string \<Rightarrow> string" where
  "spec_lineText f l =
     (if suffix ''.csv'' (file_name f) then spec_trim (spec_stripPair (spec_firstField l))
      else spec_trim l)"

definition spec_survivors :: "UploadedFile \<Rightarrow> string list" where
  "spec_survivors f =
     filter (\<lambda>l. \<not> length l \<le> 5) (map (spec_lineText f) (spec_lines (file_content f)))"

text \<open>
  The amended account differs in the quotes alone: a quote that is the first character and
  a quote that is the last character are each stripped, with or without the other.
\<close>

definition amended_stripEnds :: "string \<Rightarrow> string" where
  "amended_stripEnds s =
     (let a = (if s \<noteq> [] \<and> s ! 0 = CHR 0x22 then 1 else 0 :: nat);
          b = (if a < length s \<and> s ! (length s - 1) = CHR 0x22 then 1 else 0 :: nat)
      in take (length s - a - b) (drop a s))"

definition amended_lineText :: "UploadedFile \<Rightarrow> string \<Rightarrow> string" where
  "amended_lineText f l =
     (if suffix ''.csv'' (file_name f) then spec_trim (amended_stripEnds (spec_firstField l))
      else spec_trim l)"

definition amended_survivors :: "UploadedFile \<Rightarrow> string list" where
  "amended_survivors f =
     filter (\<lambda>l. \<not> length l \<le> 5) (map (amended_lineText f) (spec_lines (file_content f)))"

section \<open>A concrete environment\<close>

text \<open>
  A stand-in for the world, used where a statement is evaluated: the parser reads a reply
  \<open>a;b;c\<close> as three texts with one analysis each and rejects \<open>?\<close>, and the \<open>k\<close>-th
  identifier is \<open>k + 1\<close> letters long. A suggestion reply is read as the improved text, but
  for \<open>?\<close>, which is rejected, and \<open>null\<close>.
\<close>

definition demoAnalysis :: "SentimentType \<Rightarrow> real \<Rightarrow> SentimentAnalysis" where
  "demoAnalysis v c =
     \<lparr>provider = ''FLASH'', sentiment = v, confidence = c, keywords_a = [], explanation = []\<rparr>"

definition demoRaw :: "string \<Rightarrow> RawResult" where
  "demoRaw t =
     \<lparr>raw_id = Some ''x'', raw_text = t, raw_timestamp = None,
      raw_analyses = [demoAnalysis Positive (9 / 10)]\<rparr>"

definition demoEnv :: Env where
  "demoEnv =
     \<lparr>JSON_parse = (\<lambda>j. if j = ''?'' then None else Some (map demoRaw (split (CHR '';'') j))),
      JSON_parse_suggestion =
        (\<lambda>j. if j = ''?'' then None else if j = ''null'' then Some None
             else Some (Some \<lparr>improvedText = j, wordChanges = [], reasoning = []\<rparr>)),
      randomUUID = (\<lambda>k. replicate (Suc k) (CHR ''u'')),
      toISOString = (\<lambda>k. ''2026-11-02T00:00:00.000Z'')\<rparr>"

definition demoResult :: "string \<Rightarrow> SentimentAnalysis list \<Rightarrow> SentimentResult" where
  "demoResult t as = \<lparr>id_r = t, text_r = t, timestamp = [], analyses = as\<rparr>"

definition demoHistory :: "SentimentResult list" where
  "demoHistory =
     [demoResult ''new'' [demoAnalysis Positive (9 / 10)],
      demoResult ''old'' [demoAnalysis Negative (1 / 2), demoAnalysis Positive (4 / 5)]]"

definition demoCsv :: UploadedFile where
  "demoCsv =
     \<lparr>file_name = ''reviews.csv'',
      file_content = [CHR 0x22] @ ''Great service'' @ [CHR 0x22] @ '',5'' @ [CHR 0x0A]
                     @ [CHR 0x22] @ ''ok'' @ [CHR 0x22]\<rparr>"

text \<open>A file with a quoted field that holds a comma, and a text file with padded lines.\<close>

definition demoQuoted :: UploadedFile where
  "demoQuoted =
     \<lparr>file_name = ''reviews.csv'',
      file_content = [CHR 0x22] @ ''Great service, fast delivery'' @ [CHR 0x22] @ '',5''\<rparr>"

definition demoPadded :: UploadedFile where
  "demoPadded =
     \<lparr>file_name = ''notes.txt'',
      file_content = ''  hello, world  '' @ [CHR 0x0A] @ ''hi'' @ [CHR 0x0A] @ [CHR 0x09] @ ''second line''\<rparr>"


definition demoShort :: UploadedFile where
  "demoShort = \<lparr>file_name = ''notes.txt'', file_content = ''ok'' @ [CHR 0x0A] @ ''hi''\<rparr>"

text \<open>
  Two texts of 27 characters, and the state in which the first has settled and been
  analysed, the second has been typed and submitted with the Analyze button, and the first
  has been typed again, all before the timeout fires.
\<close>

definition textX :: string where "textX = ''The service was okay today.''"
definition textY :: string where "textY = ''The service was fine today.''"

definition demoResettle :: App where
  "demoResettle =
     run demoEnv [ChangeInput textX, DebounceTimeout, AnalysisSettled (Replied (Some ''a'')),
                  ChangeInput textY, ClickAnalyze, ChangeInput textX] initialApp"

section \<open>The provider boundary\<close>


lemma text_assignIds: "map text_r (assignIds env k rs) = map raw_text rs"
  by (induction rs arbitrary: k) simp_all

lemma analyses_assignIds: "map analyses (assignIds env k rs) = map raw_analyses rs"
  by (induction rs arbitrary: k) simp_all


text \<open>A call succeeds exactly on a reply that is not blank and that parses.\<close>

lemma analyzeSentiment_Inr_iff:
  "analyzeSentiment env k resp = Inr rs \<longleftrightarrow>
     (\<exists>t raws. resp = Replied (Some t) \<and> trim t \<noteq> [] \<and> JSON_parse env (trim t) = Some raws
        \<and> rs = assignIds env k raws)"
  by (auto simp: analyzeSentiment_def Let_def split: Response.splits option.splits)

lemma analyzeSentiment_Inl_iff:
  "(\<exists>e. analyzeSentiment env k resp = Inl e) \<longleftrightarrow>
     resp = Rejected \<or> resp = Replied None
     \<or> (\<exists>t. resp = Replied (Some t) \<and> (trim t = [] \<or> JSON_parse env (trim t) = None))"
  by (auto simp: analyzeSentiment_def Let_def split: Response.splits option.splits)

text \<open>The returned results carry the provider's texts and analyses, in the provider's order.\<close>

lemma analyzeSentiment_order:
  assumes "analyzeSentiment env k resp = Inr rs"
  obtains t raws where "resp = Replied (Some t)" and "JSON_parse env (trim t) = Some raws"
    and "map text_r rs = map raw_text raws" and "map analyses rs = map raw_analyses raws"
  using assms unfolding analyzeSentiment_Inr_iff
  by (auto simp: text_assignIds analyses_assignIds)

text \<open>The concrete environment reads the reply \<open>a\<close> as one result.\<close>

lemma analyze_demo_a:
  "analyzeSentiment demoEnv k (Replied (Some ''a'')) = Inr (assignIds demoEnv k [demoRaw ''a''])"
  by (simp add: analyzeSentiment_def demoEnv_def trim_def isWhiteSpace_def Let_def)

section \<open>The analysis request coordinator\<close>

text \<open>
  C1. When a batch succeeds, the current results are exactly the results the provider call
  returned, in that order; they are the front of the history, and behind them the history
  is what it was before.
\<close>

theorem submitBatch_success:
  assumes "analyzeSentiment env (uuidCalls s) resp = Inr newResults"
  shows "results (handleAnalysis_settled env resp s) = newResults
       \<and> take (length newResults) (history (handleAnalysis_settled env resp s))
           = results (handleAnalysis_settled env resp s)
       \<and> drop (length newResults) (history (handleAnalysis_settled env resp s)) = history s"
  using assms by (simp add: handleAnalysis_settled_def)

theorem submitBatch_success_witness:
  "length (results (handleAnalysis_settled demoEnv (Replied (Some ''a;b''))
      (initialApp\<lparr>history := assignIds demoEnv 7 [demoRaw ''c'']\<rparr>))) = 2
   \<and> map text_r (history (handleAnalysis_settled demoEnv (Replied (Some ''a;b''))
      (initialApp\<lparr>history := assignIds demoEnv 7 [demoRaw ''c'']\<rparr>))) = [''a'', ''b'', ''c'']"
  using submitBatch_success [of demoEnv "initialApp\<lparr>history := assignIds demoEnv 7 [demoRaw ''c'']\<rparr>"
      "Replied (Some ''a;b'')"]
  by (simp add: handleAnalysis_settled_def analyzeSentiment_def demoEnv_def demoRaw_def
      initialApp_def trim_def isWhiteSpace_def)

text \<open>
  C2. When the provider call fails (it throws, or its reply is missing, blank or does not
  parse), the error message is set, the current results and the history are untouched, and
  the loading flag is cleared.
\<close>

theorem submitBatch_failure:
  assumes "resp = Rejected \<or> resp = Replied None
     \<or> (\<exists>t. resp = Replied (Some t) \<and> (trim t = [] \<or> JSON_parse env (trim t) = None))"
  shows "error (handleAnalysis_settled env resp s)
           = Some ''Analysis failed. Verify your connection or API key.''
       \<and> results (handleAnalysis_settled env resp s) = results s
       \<and> history (handleAnalysis_settled env resp s) = history s
       \<and> \<not> isLoading (handleAnalysis_settled env resp s)"
proof -
  from assms obtain e where "analyzeSentiment env (uuidCalls s) resp = Inl e"
    using analyzeSentiment_Inl_iff [of env "uuidCalls s" resp] by blast
  then show ?thesis by (simp add: handleAnalysis_settled_def)
qed

theorem submitBatch_failure_witness:
  "isLoading (handleAnalysis compare [''hello''] (initialApp\<lparr>history := assignIds demoEnv 7 [demoRaw ''c'']\<rparr>))
   \<and> error (handleAnalysis_settled demoEnv (Replied (Some ''?''))
        (handleAnalysis compare [''hello''] (initialApp\<lparr>history := assignIds demoEnv 7 [demoRaw ''c'']\<rparr>)))
       = Some ''Analysis failed. Verify your connection or API key.''
   \<and> map text_r (history (handleAnalysis_settled demoEnv (Replied (Some ''?''))
        (handleAnalysis compare [''hello''] (initialApp\<lparr>history := assignIds demoEnv 7 [demoRaw ''c'']\<rparr>))))
       = [''c'']
   \<and> \<not> isLoading (handleAnalysis_settled demoEnv (Replied (Some ''?''))
        (handleAnalysis compare [''hello''] (initialApp\<lparr>history := assignIds demoEnv 7 [demoRaw ''c'']\<rparr>)))"
  using submitBatch_failure [of "Replied (Some ''?'')" demoEnv
      "handleAnalysis compare [''hello''] (initialApp\<lparr>history := assignIds demoEnv 7 [demoRaw ''c'']\<rparr>)"]
  by (simp add: handleAnalysis_def demoEnv_def demoRaw_def initialApp_def trim_def
      isWhiteSpace_def)

section \<open>Facts about strings\<close>

lemma split_not_Nil: "split sep s \<noteq> []"
  by (induction s) (simp_all split: list.splits)

lemma hd_split: "hd (split sep s) = takeWhile (\<lambda>c. c \<noteq> sep) s"
  by (induction s) (auto split: list.splits simp: split_not_Nil)

lemma trim_Nil_iff: "trim s = [] \<longleftrightarrow> (\<forall>c\<in>set s. isWhiteSpace c)"
proof
  assume "trim s = []"
  then have "\<forall>c\<in>set (dropWhile isWhiteSpace s). isWhiteSpace c"
    by (simp add: trim_def)
  then have "dropWhile isWhiteSpace s = []"
    using hd_dropWhile [of isWhiteSpace s] hd_in_set [of "dropWhile isWhiteSpace s"] by blast
  then show "\<forall>c\<in>set s. isWhiteSpace c" by simp
next
  assume "\<forall>c\<in>set s. isWhiteSpace c"
  then have a: "dropWhile isWhiteSpace s = []" by simp
  show "trim s = []" unfolding trim_def a by simp
qed

lemma trim_ends:
  assumes "trim s \<noteq> []"
  shows "\<not> isWhiteSpace (hd (trim s))" and "\<not> isWhiteSpace (last (trim s))"
proof -
  define u where "u = dropWhile isWhiteSpace s"
  define v where "v = dropWhile isWhiteSpace (rev u)"
  have t: "trim s = rev v" by (simp add: trim_def u_def v_def)
  with assms have v: "v \<noteq> []" by simp
  then have u: "u \<noteq> []" by (auto simp: v_def)
  have hu: "\<not> isWhiteSpace (hd u)" using u hd_dropWhile [of isWhiteSpace s] by (simp add: u_def)
  have "hd u \<in> set (rev u)" using u by simp
  then have "last v = last (rev u)" unfolding v_def using hu by (rule dropWhile_last)
  then have "last v = hd u" using u by (simp add: last_rev)
  then show "\<not> isWhiteSpace (hd (trim s))" using hu v by (simp add: t hd_rev)
  have "\<not> isWhiteSpace (hd v)" using v hd_dropWhile [of isWhiteSpace "rev u"] by (simp add: v_def)
  then show "\<not> isWhiteSpace (last (trim s))" using v by (simp add: t last_rev)
qed

lemma trim_idem: "trim (trim s) = trim s"
proof (cases "trim s = []")
  case True
  then have "trim [] = []" "trim s = []" by (simp_all add: trim_def)
  then show ?thesis by simp
next
  case False
  define t where "t = trim s"
  have h: "\<not> isWhiteSpace (hd t)" and l: "\<not> isWhiteSpace (last t)" and ne: "t \<noteq> []"
    using False trim_ends [of s] by (simp_all add: t_def)
  have 1: "dropWhile isWhiteSpace t = t" using h by (simp add: dropWhile_eq_self_iff)
  have "hd (rev t) = last t" using ne by (simp add: hd_rev)
  then have 2: "dropWhile isWhiteSpace (rev t) = rev t" using l by (simp add: dropWhile_eq_self_iff)
  have "trim t = t" unfolding trim_def 1 2 by simp
  then show ?thesis by (simp add: t_def)
qed

section \<open>Bulk upload\<close>

text \<open>A pair of surrounding quotes is stripped; a string without quotes at its ends is kept.\<close>

lemma stripQuotes_pair: "stripQuotes (CHR 0x22 # s @ [CHR 0x22]) = s"
  by (simp add: stripQuotes_def)

lemma stripQuotes_plain:
  "s \<noteq> [] \<Longrightarrow> hd s \<noteq> CHR 0x22 \<Longrightarrow> last s \<noteq> CHR 0x22 \<Longrightarrow> stripQuotes s = s"
  by (cases s) (simp_all add: stripQuotes_def)

lemma handleAnalysis_calls:
  "analysisCalls (handleAnalysis p texts s) =
     (if texts = [] \<or> (\<forall>t\<in>set texts. trim t = []) then analysisCalls s
      else analysisCalls s @ [(texts, p)])"
  by (simp add: handleAnalysis_def list_all_iff)

lemma endsWith_suffix: "endsWith s suf \<longleftrightarrow> suffix suf s"
proof
  assume "endsWith s suf"
  then have "drop (length s - length suf) s = suf" by (simp add: endsWith_def)
  then show "suffix suf s" by (metis suffix_drop)
next
  assume "suffix suf s"
  then obtain zs where "s = zs @ suf" by (auto simp: suffix_def)
  then show "endsWith s suf" by (simp add: endsWith_def)
qed

text \<open>The code's \<open>split\<close>, \<open>trim\<close> and \<open>replace\<close> against the accounts above.\<close>

lemma lines_from_split:
  "spec_lines_from cur s = (rev cur @ hd (split (CHR 0x0A) s)) # tl (split (CHR 0x0A) s)"
  by (induction s arbitrary: cur) (auto split: list.splits simp: split_not_Nil)

lemma split_lines: "split (CHR 0x0A) s = spec_lines s"
  by (simp add: spec_lines_def lines_from_split split_not_Nil)

lemma dropTrailing_Nil_iff: "spec_dropTrailing s = [] \<longleftrightarrow> (\<forall>c\<in>set s. isWhiteSpace c)"
  by (induction s) auto

lemma dropTrailing_rev: "spec_dropTrailing s = rev (dropWhile isWhiteSpace (rev s))"
  by (induction s) (auto simp: dropWhile_append dropTrailing_Nil_iff)

lemma trim_spec: "trim s = spec_trim s"
  by (simp add: trim_def spec_trim_def dropTrailing_rev)

lemma stripQuotes_ends: "stripQuotes s = amended_stripEnds s"
proof (cases s)
  case Nil
  then show ?thesis by (simp add: stripQuotes_def amended_stripEnds_def)
next
  case (Cons c cs)
  show ?thesis
  proof (cases "c = CHR 0x22")
    case True
    then show ?thesis using Cons
      by (cases "cs = []")
        (auto simp: stripQuotes_def amended_stripEnds_def last_conv_nth butlast_conv_take)
  next
    case False
    then show ?thesis using Cons
      by (auto simp: stripQuotes_def amended_stripEnds_def last_conv_nth butlast_conv_take
          nth_Cons')
  qed
qed

text \<open>What trimming is: the white space at both ends goes, and nothing else.\<close>

lemma trim_characterised:
  "\<exists>a b. s = a @ trim s @ b \<and> (\<forall>c\<in>set a. isWhiteSpace c) \<and> (\<forall>c\<in>set b. isWhiteSpace c)
     \<and> (trim s = [] \<or> \<not> isWhiteSpace (hd (trim s)) \<and> \<not> isWhiteSpace (last (trim s)))"
proof -
  define u where "u = dropWhile isWhiteSpace s"
  define a where "a = takeWhile isWhiteSpace s"
  define b where "b = rev (takeWhile isWhiteSpace (rev u))"
  have "rev (dropWhile isWhiteSpace (rev u)) @ rev (takeWhile isWhiteSpace (rev u))
          = rev (takeWhile isWhiteSpace (rev u) @ dropWhile isWhiteSpace (rev u))"
    by (simp only: rev_append)
  also have "\<dots> = rev (rev u)" by (simp only: takeWhile_dropWhile_id)
  finally have "trim s @ b = u" by (simp add: trim_def u_def b_def)
  then have u: "u = trim s @ b" by simp
  have "s = a @ u" by (simp add: a_def u_def)
  with u have 1: "s = a @ trim s @ b" by simp
  have 2: "\<forall>c\<in>set a. isWhiteSpace c" by (auto simp: a_def dest: set_takeWhileD)
  have 3: "\<forall>c\<in>set b. isWhiteSpace c" by (auto simp: b_def dest: set_takeWhileD)
  have 4: "trim s = [] \<or> \<not> isWhiteSpace (hd (trim s)) \<and> \<not> isWhiteSpace (last (trim s))"
    using trim_ends [of s] by blast
  from 1 2 3 4 show ?thesis by blast
qed

lemma extractLines_amended: "extractLines f = amended_survivors f"
  by (simp add: extractLines_def amended_survivors_def amended_lineText_def endsWith_suffix
      hd_split trim_spec stripQuotes_ends split_lines spec_firstField_def not_le cong: map_cong)


lemma survivor_trimmed:
  assumes "t \<in> set (amended_survivors f)"
  shows "5 < length t" and "\<not> isWhiteSpace (hd t)" and "\<not> isWhiteSpace (last t)"
proof -
  from assms obtain x where t: "t = trim x" and len: "5 < length t"
    by (auto simp: amended_survivors_def amended_lineText_def trim_spec split: if_splits)
  show "5 < length t" by (rule len)
  from len have "trim x \<noteq> []" by (auto simp: t)
  then show "\<not> isWhiteSpace (hd t)" and "\<not> isWhiteSpace (last t)"
    using trim_ends [of x] by (simp_all add: t)
qed

lemma survivor_not_blank: "t \<in> set (amended_survivors f) \<Longrightarrow> trim t \<noteq> []"
proof -
  assume "t \<in> set (amended_survivors f)"
  then obtain x where "t = trim x" and "5 < length t"
    by (auto simp: amended_survivors_def amended_lineText_def trim_spec split: if_splits)
  then show "trim t \<noteq> []" by (auto simp: trim_idem)
qed

text \<open>Where a field has both quotes or neither, the two ways of stripping agree.\<close>

lemma stripEnds_pair:
  "amended_stripEnds (CHR 0x22 # s @ [CHR 0x22]) = s" "spec_stripPair (CHR 0x22 # s @ [CHR 0x22]) = s"
  by (simp_all add: amended_stripEnds_def spec_stripPair_def nth_append butlast_append)

lemma stripEnds_plain:
  assumes "s \<noteq> []" and "hd s \<noteq> CHR 0x22" and "last s \<noteq> CHR 0x22"
  shows "amended_stripEnds s = s" and "spec_stripPair s = s"
  using assms by (simp_all add: amended_stripEnds_def spec_stripPair_def hd_conv_nth last_conv_nth)

text \<open>
  C6, as claimed, fails: of the line \<open>"Great service, fast delivery",5\<close> the first field
  is \<open>"Great service\<close>, which no pair of quotes surrounds, so the specification keeps its
  quote; the code strips it and submits \<open>Great service\<close>.
\<close>

theorem lone_quote_stripped:
  "take 10 (spec_survivors demoQuoted) = [CHR 0x22 # ''Great service'']
   \<and> analysisCalls (reader_onload compare demoQuoted initialApp) = [([''Great service''], compare)]
   \<and> analysisCalls (reader_onload compare demoQuoted initialApp)
       \<noteq> analysisCalls initialApp @ [(take 10 (spec_survivors demoQuoted), compare)]"
proof -
  have 1: "spec_survivors demoQuoted = [CHR 0x22 # ''Great service'']"
    by code_simp
  have 2: "extractLines demoQuoted = [''Great service'']"
    by code_simp
  have 3: "analysisCalls (reader_onload compare demoQuoted initialApp)
             = [([''Great service''], compare)]"
    by (simp add: reader_onload_def 2 handleAnalysis_def trim_def isWhiteSpace_def initialApp_def)
  have 4: "analysisCalls initialApp = []" by (simp add: initialApp_def)
  show ?thesis by (simp add: 1 3 4)
qed

text \<open>
  C6, amended. Reading an uploaded file issues one provider call with the first ten
  surviving lines, and none when no line survives, where for a \<open>.csv\<close> name a line stands
  for its first comma-delimited field with a quote at its start and a quote at its end each
  stripped when present, then trimmed, and otherwise for itself, trimmed, and a line
  survives when its length exceeds 5. Every submitted text is longer than 5 and neither
  starts nor ends with white space.
\<close>

theorem bulk_upload_batch:
  "analysisCalls (reader_onload p f s) =
     (if amended_survivors f = [] then analysisCalls s
      else analysisCalls s @ [(take 10 (amended_survivors f), p)])
   \<and> length (take 10 (amended_survivors f)) \<le> 10
   \<and> (\<forall>t\<in>set (take 10 (amended_survivors f)).
         5 < length t \<and> \<not> isWhiteSpace (hd t) \<and> \<not> isWhiteSpace (last t))"
proof (intro conjI ballI)
  show "analysisCalls (reader_onload p f s) =
     (if amended_survivors f = [] then analysisCalls s
      else analysisCalls s @ [(take 10 (amended_survivors f), p)])"
  proof (cases "amended_survivors f = []")
    case True
    then show ?thesis by (simp add: reader_onload_def extractLines_amended)
  next
    case False
    then obtain t ts where ts: "amended_survivors f = t # ts"
      by (cases "amended_survivors f") auto
    then have "t \<in> set (amended_survivors f)" by simp
    then have "trim t \<noteq> []" by (rule survivor_not_blank)
    then have "\<not> (\<forall>x\<in>set (take 10 (amended_survivors f)). trim x = [])" using ts by auto
    then show ?thesis using False
      by (simp add: reader_onload_def extractLines_amended handleAnalysis_calls)
  qed
next
  show "length (take 10 (amended_survivors f)) \<le> 10" by simp
next
  fix t assume "t \<in> set (take 10 (amended_survivors f))"
  then have t: "t \<in> set (amended_survivors f)" by (rule in_set_takeD)
  show "5 < length t" using t by (rule survivor_trimmed)
  show "\<not> isWhiteSpace (hd t)" using t by (rule survivor_trimmed)
  show "\<not> isWhiteSpace (last t)" using t by (rule survivor_trimmed)
qed

lemma survivors_demoCsv: "amended_survivors demoCsv = [''Great service'']"
  by code_simp

lemma survivors_demoPadded: "amended_survivors demoPadded = [''hello, world'', ''second line'']"
  by code_simp

theorem bulk_upload_batch_witness:
  "analysisCalls (reader_onload flash demoCsv initialApp) = [([''Great service''], flash)]
   \<and> analysisCalls (reader_onload pro demoPadded initialApp)
       = [([''hello, world'', ''second line''], pro)]"
  using bulk_upload_batch [of flash demoCsv initialApp]
    bulk_upload_batch [of pro demoPadded initialApp]
  by (simp add: survivors_demoCsv survivors_demoPadded initialApp_def)

text \<open>When no line survives, all that the upload leaves behind is the loading flag.\<close>

lemma empty_upload:
  "extractLines f = [] \<Longrightarrow> reader_onload p f (onFileUpload (Some f) s) = s\<lparr>isLoading := True\<rparr>"
  by (simp add: reader_onload_def onFileUpload_def)

lemma extractLines_demoShort: "extractLines demoShort = []"
  by (simp add: extractLines_def demoShort_def endsWith_def trim_def isWhiteSpace_def)

text \<open>
  C7. An upload of which no line survives makes no provider call and sets no error, but the
  loading flag that \<open>onFileUpload\<close> set stays set: \<open>reader.onload\<close> returns without
  clearing it.
\<close>

theorem empty_upload_keeps_loading:
  "extractLines demoShort = []
   \<and> analysisCalls (run demoEnv [ChooseFile (Some demoShort), FileLoaded compare demoShort] initialApp) = []
   \<and> error (run demoEnv [ChooseFile (Some demoShort), FileLoaded compare demoShort] initialApp) = None
   \<and> isLoading (run demoEnv [ChooseFile (Some demoShort), FileLoaded compare demoShort] initialApp)"
  by (simp add: extractLines_demoShort reader_onload_def onFileUpload_def initialApp_def)

section \<open>The tone-improvement session\<close>

text \<open>
  C3, as claimed, fails: a session is opened and dismissed, the session is closed and holds
  no suggestion; then the provider answers, and the answer is stored.
\<close>

theorem stale_suggestion_stored:
  "improvingText (run demoEnv [ClickReframe ''u'' ''bad'', DismissSuggestion] initialApp) = None
   \<and> suggestion (run demoEnv [ClickReframe ''u'' ''bad'', DismissSuggestion] initialApp) = None
   \<and> suggestion (run demoEnv [ClickReframe ''u'' ''bad'', DismissSuggestion,
         ImprovementSettled (Replied (Some ''better''))] initialApp) \<noteq> None"
  by (simp add: handleImproveRequest_def dismissSuggestion_def handleImproveRequest_settled_def
      getImprovementSuggestions_def demoEnv_def trim_def isWhiteSpace_def initialApp_def)

text \<open>
  C3, amended. A response that arrives after the dismissal does not reopen the session
  (\<open>improvingText\<close> stays \<open>null\<close>, and the modal is rendered only when it is set); a
  successful one is stored in \<open>suggestion\<close> all the same, whatever value it parsed to, and
  clears \<open>isImproving\<close>. Opening the next session resets the stored suggestion.
\<close>

theorem late_response_after_dismiss:
  "improvingText (handleImproveRequest_settled env resp (dismissSuggestion s)) = None
   \<and> (getImprovementSuggestions env resp = Inr d \<longrightarrow>
        suggestion (handleImproveRequest_settled env resp (dismissSuggestion s)) = d
        \<and> \<not> isImproving (handleImproveRequest_settled env resp (dismissSuggestion s)))
   \<and> suggestion (handleImproveRequest i t s') = None"
  by (simp add: handleImproveRequest_settled_def dismissSuggestion_def handleImproveRequest_def
      split: sum.splits)

theorem late_response_after_dismiss_witness:
  "improvingText (handleImproveRequest_settled demoEnv (Replied (Some ''better''))
      (dismissSuggestion (handleImproveRequest ''u'' ''bad'' initialApp))) = None
   \<and> suggestion (handleImproveRequest_settled demoEnv (Replied (Some ''better''))
      (dismissSuggestion (handleImproveRequest ''u'' ''bad'' initialApp)))
     = Some \<lparr>improvedText = ''better'', wordChanges = [], reasoning = []\<rparr>"
  using late_response_after_dismiss [of demoEnv "Replied (Some ''better'')"
      "handleImproveRequest ''u'' ''bad'' initialApp"
      "Some \<lparr>improvedText = ''better'', wordChanges = [], reasoning = []\<rparr>"]
  by (simp add: getImprovementSuggestions_def demoEnv_def trim_def isWhiteSpace_def)

section \<open>The first-run guidance flag\<close>

lemma showGuide_handleAnalysis [simp]: "showGuide (handleAnalysis p texts s) = showGuide s"
  by (simp add: handleAnalysis_def)

lemma showGuide_setInputText [simp]: "showGuide (setInputText v s) = showGuide s"
  by (simp add: setInputText_def)

lemma showGuide_autoAnalysisEffect [simp]: "showGuide (autoAnalysisEffect s) = showGuide s"
  by (simp add: autoAnalysisEffect_def Let_def)

lemma showGuide_debounceTimeout [simp]: "showGuide (debounceTimeout s) = showGuide s"
  by (simp add: debounceTimeout_def Let_def)

lemma showGuide_manualAnalyze [simp]: "showGuide (manualAnalyze s) = showGuide s"
  by (simp add: manualAnalyze_def)

lemma showGuide_reader_onload [simp]: "showGuide (reader_onload p f s) = showGuide s"
  by (simp add: reader_onload_def Let_def)

lemma showGuide_handleAnalysis_settled:
  "showGuide (handleAnalysis_settled env resp s) \<Longrightarrow> showGuide s"
  by (simp add: handleAnalysis_settled_def split: sum.splits)

text \<open>
  C9, as claimed, fails: after a successful analysis has switched the guide off, the
  HelpCircle button switches it on again.
\<close>

theorem guide_reenabled:
  "\<not> showGuide (run demoEnv [AnalysisSettled (Replied (Some ''a''))] initialApp)
   \<and> showGuide (run demoEnv [AnalysisSettled (Replied (Some ''a'')), ClickHelpCircle] initialApp)"
  by (simp add: handleAnalysis_settled_def analyze_demo_a)

text \<open>
  C9, amended. Every successful analysis switches the guide off, and no event other than
  the two help controls switches it on: the HelpCircle button sets the flag, the Help Center
  button toggles it.
\<close>

theorem guide_flag:
  "(analyzeSentiment env (uuidCalls s) resp = Inr rs \<longrightarrow>
      \<not> showGuide (handleAnalysis_settled env resp s))
   \<and> (e \<noteq> ClickHelpCircle \<and> e \<noteq> ClickHelpCenter \<and> \<not> showGuide s \<longrightarrow>
      \<not> showGuide (step env e s))
   \<and> showGuide (step env ClickHelpCircle s)
   \<and> showGuide (step env ClickHelpCenter s) = (\<not> showGuide s)"
proof -
  have "\<not> showGuide (step env e s)"
    if "e \<noteq> ClickHelpCircle" "e \<noteq> ClickHelpCenter" "\<not> showGuide s"
    using that
    by (cases e)
      (auto simp: insertExample_def handleImproveRequest_def handleImproveRequest_settled_def
        dismissSuggestion_def onFileUpload_def
        dest: showGuide_handleAnalysis_settled split: sum.splits option.splits)
  then show ?thesis by (simp add: handleAnalysis_settled_def)
qed

theorem guide_flag_witness:
  "\<not> showGuide (handleAnalysis_settled demoEnv (Replied (Some ''a'')) initialApp)
   \<and> \<not> showGuide (step demoEnv (ChangeInput ''more'')
         (handleAnalysis_settled demoEnv (Replied (Some ''a'')) initialApp))
   \<and> showGuide (step demoEnv ClickHelpCenter
         (handleAnalysis_settled demoEnv (Replied (Some ''a'')) initialApp))"
proof -
  let ?s = "handleAnalysis_settled demoEnv (Replied (Some ''a'')) initialApp"
  have 1: "\<not> showGuide ?s"
    using guide_flag [of demoEnv initialApp "Replied (Some ''a'')"
        "assignIds demoEnv (uuidCalls initialApp) [demoRaw ''a'']" CloseGuide]
    by (simp add: analyze_demo_a)
  have 2: "\<not> showGuide (step demoEnv (ChangeInput ''more'') ?s)"
    using 1 guide_flag [of demoEnv ?s Rejected "[]" "ChangeInput ''more''"] by blast
  have 3: "showGuide (step demoEnv ClickHelpCenter ?s)"
    using 1 guide_flag [of demoEnv ?s Rejected "[]" CloseGuide] by blast
  show ?thesis using 1 2 3 by blast
qed

section \<open>Derived views\<close>

lemma firstSentiment_empty: "analyses r = [] \<Longrightarrow> firstSentiment r = None"
  by (simp add: firstSentiment_def)

lemma radialTotal_pos: "0 < radialTotal data"
  by (simp add: radialTotal_def)

text \<open>
  C10. A result without analyses is not counted in the numerator of the radial score, whose
  denominator is never zero; alone it scores 0; and whether it heads the current results
  or, these being empty, the history, the mood is the Neutral theme.
\<close>

theorem empty_analyses_views:
  assumes "analyses r = []"
  shows "radialPosCount (xs @ r # ys) = radialPosCount (xs @ ys)
       \<and> 0 < radialTotal (xs @ r # ys)
       \<and> radialData (s\<lparr>results := [r]\<rparr>) = 0
       \<and> moodColors (s\<lparr>results := r # rs\<rparr>)
           = ''radial-gradient(circle at top right, #f5f3ff 0%, #ede9fe 35%, #fdfcfb 100%)''
       \<and> moodColors (s\<lparr>results := [], history := r # rs\<rparr>)
           = ''radial-gradient(circle at top right, #f5f3ff 0%, #ede9fe 35%, #fdfcfb 100%)''"
  using assms
  by (simp add: radialPosCount_def radialTotal_def radialData_def moodColors_def
      firstSentiment_def Math_round_def)

theorem empty_analyses_views_witness:
  "radialPosCount [demoResult ''a'' [demoAnalysis Positive 1], demoResult ''b'' []] = 1
   \<and> radialData (initialApp\<lparr>results := [demoResult ''b'' []]\<rparr>) = 0
   \<and> moodColors (initialApp\<lparr>results := [demoResult ''b'' [], demoResult ''a'' [demoAnalysis Positive 1]]\<rparr>)
       = ''radial-gradient(circle at top right, #f5f3ff 0%, #ede9fe 35%, #fdfcfb 100%)''"
  using empty_analyses_views [of "demoResult ''b'' []" "[demoResult ''a'' [demoAnalysis Positive 1]]" "[]"
      initialApp "[demoResult ''a'' [demoAnalysis Positive 1]]"]
  by (simp add: demoResult_def radialPosCount_def firstSentiment_def demoAnalysis_def)

subsection \<open>The time series\<close>

lemma showNat_small: "showNat 15 = ''15''" "showNat 14 = ''14''"
  by (simp_all add: showNat.simps)

text \<open>The window is the 15 newest entries, oldest first; there is one point per entry.\<close>

lemma window_recent: "slice_last15 (rev hist) = rev (take 15 hist)"
  by (simp add: slice_last15_def rev_take)

lemma length_timeSeriesData: "length (timeSeriesData hist) = min 15 (length hist)"
  by (simp add: timeSeriesData_def slice_last15_def Let_def)

text \<open>The \<open>i\<close>-th point is named after \<open>15 - i\<close>, however many points there are.\<close>

lemma names_timeSeriesData:
  "map tp_name (timeSeriesData hist)
     = map (\<lambda>i. ''T-'' @ showNat (15 - i)) [0 ..< min 15 (length hist)]"
proof -
  define w where "w = slice_last15 (rev hist)"
  have len: "length w = min 15 (length hist)" by (simp add: w_def slice_last15_def)
  have "map tp_name (timeSeriesData hist)
          = map (\<lambda>p. ''T-'' @ showNat (15 - snd p)) (zip w [0 ..< length w])"
    by (simp add: timeSeriesData_def Let_def timePoint_def case_prod_unfold o_def flip: w_def)
  also have "\<dots> = map (\<lambda>i. ''T-'' @ showNat (15 - i)) (map snd (zip w [0 ..< length w]))"
    by (simp only: map_map comp_def)
  also have "map snd (zip w [0 ..< length w]) = [0 ..< length w]" by simp
  finally show ?thesis by (simp add: len)
qed

text \<open>
  C5. On a history of two entries the points are in chronological order and carry the
  rounded mean confidence and the three counts, but they are named \<open>T-15\<close> and \<open>T-14\<close>,
  where the offsets from the newest entry are \<open>T-2\<close> and \<open>T-1\<close>.
\<close>

theorem trend_labels_short_history:
  "timeSeriesData demoHistory =
     [\<lparr>tp_name = ''T-15'', tp_confidence = Some 65, pos = 1, neg = 1, neu = 0\<rparr>,
      \<lparr>tp_name = ''T-14'', tp_confidence = Some 90, pos = 1, neg = 0, neu = 0\<rparr>]"
  by (simp add: timeSeriesData_def slice_last15_def timePoint_def showNat_small demoHistory_def
      demoResult_def demoAnalysis_def avgConf_def Math_round_def upt_rec)

section \<open>Identity of stored results\<close>


lemma store_handleAnalysis [simp]:
  "results (handleAnalysis p texts s) = results s"
  "history (handleAnalysis p texts s) = history s"
  "uuidCalls (handleAnalysis p texts s) = uuidCalls s"
  by (simp_all add: handleAnalysis_def)

lemma store_setInputText [simp]:
  "results (setInputText v s) = results s"
  "history (setInputText v s) = history s"
  "uuidCalls (setInputText v s) = uuidCalls s"
  by (simp_all add: setInputText_def)

lemma store_autoAnalysisEffect [simp]:
  "results (autoAnalysisEffect s) = results s"
  "history (autoAnalysisEffect s) = history s"
  "uuidCalls (autoAnalysisEffect s) = uuidCalls s"
  by (simp_all add: autoAnalysisEffect_def Let_def)

lemma store_debounceTimeout [simp]:
  "results (debounceTimeout s) = results s"
  "history (debounceTimeout s) = history s"
  "uuidCalls (debounceTimeout s) = uuidCalls s"
  by (simp_all add: debounceTimeout_def Let_def)

lemma store_manualAnalyze [simp]:
  "results (manualAnalyze s) = results s"
  "history (manualAnalyze s) = history s"
  "uuidCalls (manualAnalyze s) = uuidCalls s"
  by (simp_all add: manualAnalyze_def)

lemma store_reader_onload [simp]:
  "results (reader_onload p f s) = results s"
  "history (reader_onload p f s) = history s"
  "uuidCalls (reader_onload p f s) = uuidCalls s"
  by (simp_all add: reader_onload_def Let_def)

lemma store_improve [simp]:
  "results (handleImproveRequest_settled env resp s) = results s"
  "history (handleImproveRequest_settled env resp s) = history s"
  "uuidCalls (handleImproveRequest_settled env resp s) = uuidCalls s"
  by (simp_all add: handleImproveRequest_settled_def split: sum.splits)












section \<open>The debounced input controller\<close>

lemma trim_textX: "trim textX = textX" "trim textY = textY"
  by (simp_all add: trim_def textX_def textY_def isWhiteSpace_def)

lemma length_textX:
  "length textX = 27" "length textY = 27" "textX \<noteq> textY" "textY \<noteq> textX"
  "textX \<noteq> []" "textY \<noteq> []"
  by (simp_all add: textX_def textY_def)

lemma demoResettle_fields:
  "inputText demoResettle = textX" "debouncedValue demoResettle = textX"
  "lastAnalyzedText demoResettle = textY" "timerPending demoResettle"
  "analysisCalls demoResettle = [([textX], compare), ([textY], compare)]"
  by (simp_all add: demoResettle_def setInputText_def debounceTimeout_def autoAnalysisEffect_def
      handleAnalysis_def manualAnalyze_def handleAnalysis_settled_def analyze_demo_a
      trim_textX length_textX initialApp_def Let_def)

text \<open>
  C4, as claimed, fails: the timeout is pending for a text of 27 characters that differs
  from the tracker, which holds the text submitted last, and when the timeout fires no
  request is issued, because the settled value is the one that had settled before.
\<close>

theorem resettle_not_triggered:
  "timerPending demoResettle
   \<and> inputText demoResettle = textX
   \<and> debouncedValue demoResettle = textX
   \<and> lastAnalyzedText demoResettle = textY
   \<and> analysisCalls demoResettle = [([textX], compare), ([textY], compare)]
   \<and> 20 < length (trim (inputText demoResettle))
   \<and> inputText demoResettle \<noteq> lastAnalyzedText demoResettle
   \<and> analysisCalls (debounceTimeout demoResettle) = analysisCalls demoResettle"
  by (simp add: demoResettle_fields trim_textX length_textX debounceTimeout_def)

lemma handleAnalysis_fields [simp]:
  "lastAnalyzedText (handleAnalysis p texts s) = lastAnalyzedText s"
  "inputText (handleAnalysis p texts s) = inputText s"
  "debouncedValue (handleAnalysis p texts s) = debouncedValue s"
  "timerPending (handleAnalysis p texts s) = timerPending s"
  "selectedProvider (handleAnalysis p texts s) = selectedProvider s"
  by (simp_all add: handleAnalysis_def)

lemma long_not_blank: "20 < length (trim v) \<Longrightarrow> trim v \<noteq> []"
  by auto

text \<open>What a firing timeout adds to the calls made to the provider.\<close>

lemma debounceTimeout_calls:
  "analysisCalls (debounceTimeout s) =
     (if timerPending s \<and> inputText s \<noteq> debouncedValue s \<and> 20 < length (trim (inputText s))
         \<and> inputText s \<noteq> lastAnalyzedText s
      then analysisCalls s @ [([inputText s], selectedProvider s)]
      else analysisCalls s)"
  by (auto simp: debounceTimeout_def autoAnalysisEffect_def Let_def handleAnalysis_calls)

lemma debounceTimeout_trigger:
  assumes "analysisCalls (debounceTimeout s) \<noteq> analysisCalls s"
  shows "debounceTimeout s =
           handleAnalysis (selectedProvider s) [inputText s]
             (s\<lparr>timerPending := False, debouncedValue := inputText s,
                lastAnalyzedText := inputText s\<rparr>)"
proof -
  from assms have "timerPending s" "inputText s \<noteq> debouncedValue s"
    "20 < length (trim (inputText s))" "inputText s \<noteq> lastAnalyzedText s"
    by (auto simp: debounceTimeout_calls split: if_splits)
  then show ?thesis by (simp add: debounceTimeout_def autoAnalysisEffect_def Let_def)
qed

lemma timerPending_debounceTimeout [simp]: "\<not> timerPending (debounceTimeout s)"
  by (simp add: debounceTimeout_def autoAnalysisEffect_def Let_def)

lemma debounceTimeout_idle: "\<not> timerPending s \<Longrightarrow> debounceTimeout s = s"
  by (simp add: debounceTimeout_def)

text \<open>Edits with no timeout between them leave everything but the input text alone.\<close>

lemma edits_fields:
  "analysisCalls (run env (map ChangeInput vs) s) = analysisCalls s"
  "selectedProvider (run env (map ChangeInput vs) s) = selectedProvider s"
  "lastAnalyzedText (run env (map ChangeInput vs) s) = lastAnalyzedText s"
  "debouncedValue (run env (map ChangeInput vs) s) = debouncedValue s"
  by (induction vs arbitrary: s) (simp_all add: setInputText_def)

lemma edits_inputText: "vs \<noteq> [] \<Longrightarrow> inputText (run env (map ChangeInput vs) s) = last vs"
proof (induction vs arbitrary: s)
  case Nil
  then show ?case by simp
next
  case (Cons v vs)
  show ?case
  proof (cases "vs = []")
    case True
    then show ?thesis by (simp add: setInputText_def)
  next
    case False
    with Cons.IH [of "setInputText v s"] show ?thesis by simp
  qed
qed

text \<open>
  C4, amended. When the timeout fires, a request for the settled text is issued exactly
  when that text differs from the value settled before, its trimmed length exceeds 20, and
  it differs from the tracker. The tracker is set before the request is issued. A text equal
  to the tracker issues nothing when it settles, and the Analyze button sets the tracker to
  the text it submits. Edits with no timeout between them lead to at most one request, for
  the last text, and a second firing does nothing.
\<close>

theorem auto_trigger:
  "(timerPending s \<longrightarrow>
      analysisCalls (debounceTimeout s) =
        (if inputText s \<noteq> debouncedValue s \<and> 20 < length (trim (inputText s))
            \<and> inputText s \<noteq> lastAnalyzedText s
         then analysisCalls s @ [([inputText s], selectedProvider s)]
         else analysisCalls s))
   \<and> (analysisCalls (debounceTimeout s) \<noteq> analysisCalls s \<longrightarrow>
        debounceTimeout s =
          handleAnalysis (selectedProvider s) [inputText s]
            (s\<lparr>timerPending := False, debouncedValue := inputText s,
               lastAnalyzedText := inputText s\<rparr>)
        \<and> lastAnalyzedText (debounceTimeout s) = inputText s)
   \<and> (lastAnalyzedText s = inputText s \<longrightarrow>
        analysisCalls (debounceTimeout s) = analysisCalls s)
   \<and> (\<not> isLoading s \<and> trim (inputText s) \<noteq> [] \<longrightarrow>
        lastAnalyzedText (step env ClickAnalyze s) = inputText (step env ClickAnalyze s))
   \<and> (vs \<noteq> [] \<longrightarrow>
        (analysisCalls (debounceTimeout (run env (map ChangeInput vs) s)) = analysisCalls s
         \<or> analysisCalls (debounceTimeout (run env (map ChangeInput vs) s))
             = analysisCalls s @ [([last vs], selectedProvider s)])
        \<and> debounceTimeout (debounceTimeout (run env (map ChangeInput vs) s))
             = debounceTimeout (run env (map ChangeInput vs) s))"
proof (intro conjI impI)
  assume "analysisCalls (debounceTimeout s) \<noteq> analysisCalls s"
  then have eq: "debounceTimeout s =
      handleAnalysis (selectedProvider s) [inputText s]
        (s\<lparr>timerPending := False, debouncedValue := inputText s,
           lastAnalyzedText := inputText s\<rparr>)"
    by (rule debounceTimeout_trigger)
  show "debounceTimeout s =
      handleAnalysis (selectedProvider s) [inputText s]
        (s\<lparr>timerPending := False, debouncedValue := inputText s,
           lastAnalyzedText := inputText s\<rparr>)" by (rule eq)
  show "lastAnalyzedText (debounceTimeout s) = inputText s" by (simp add: eq)
next
  assume "vs \<noteq> []"
  then show "analysisCalls (debounceTimeout (run env (map ChangeInput vs) s)) = analysisCalls s
         \<or> analysisCalls (debounceTimeout (run env (map ChangeInput vs) s))
             = analysisCalls s @ [([last vs], selectedProvider s)]"
    by (simp add: debounceTimeout_calls edits_fields edits_inputText)
  show "debounceTimeout (debounceTimeout (run env (map ChangeInput vs) s))
             = debounceTimeout (run env (map ChangeInput vs) s)"
    by (simp add: debounceTimeout_idle)
qed (simp_all add: debounceTimeout_calls manualAnalyze_def)

theorem auto_trigger_witness:
  "analysisCalls (debounceTimeout (run demoEnv (map ChangeInput [textY, textX]) initialApp))
     = [([textX], compare)]
   \<and> lastAnalyzedText (debounceTimeout (run demoEnv (map ChangeInput [textY, textX]) initialApp))
     = textX
   \<and> analysisCalls (debounceTimeout (run demoEnv (map ChangeInput [textY, textX])
        (debounceTimeout (run demoEnv (map ChangeInput [textY, textX]) initialApp))))
     = [([textX], compare)]"
proof -
  define s where "s = run demoEnv (map ChangeInput [textY, textX]) initialApp"
  have f: "timerPending s" "inputText s = textX" "debouncedValue s = []"
    "lastAnalyzedText s = []" "analysisCalls s = []" "selectedProvider s = compare"
    by (simp_all add: s_def setInputText_def initialApp_def length_textX)
  have 1: "analysisCalls (debounceTimeout s) = [([textX], compare)]"
    using auto_trigger [of s demoEnv "[textX]", THEN conjunct1]
    by (simp add: f trim_textX length_textX)
  then have "analysisCalls (debounceTimeout s) \<noteq> analysisCalls s" by (simp add: f)
  then have 2: "lastAnalyzedText (debounceTimeout s) = textX"
    using auto_trigger [of s demoEnv "[textX]"] by (simp add: f)
  define t where "t = run demoEnv (map ChangeInput [textY, textX]) (debounceTimeout s)"
  have "inputText t = textX" "lastAnalyzedText t = textX"
    "analysisCalls t = [([textX], compare)]"
    using 1 2 by (simp_all add: t_def setInputText_def)
  then have 3: "analysisCalls (debounceTimeout t) = [([textX], compare)]"
    using auto_trigger [of t demoEnv "[textX]"] by simp
  show ?thesis using 1 2 3 unfolding s_def t_def by blast
qed

end
